theory Spec2Isabelle
  imports Complex_Main "HOL-Library.Sublist"
begin

section \<open>Python primitives used by the CRM\<close>

text \<open>
  The numeric columns of type \<open>Float\<close> are modelled as exact reals and the \<open>Integer\<close>
  columns as unbounded integers. The only arithmetic the program performs on the
  \<open>Float\<close> fields is comparison against constants and the one division of
  \<open>compute_pti\<close>; Python's true division raises \<open>ZeroDivisionError\<close> on a zero
  divisor, which is kept as an error value.
\<close>

datatype py_error = ZeroDivisionError

definition py_truediv :: "real \<Rightarrow> real \<Rightarrow> py_error + real" where
  "py_truediv a b = (if b = 0 then Inl ZeroDivisionError else Inr (a / b))"

text \<open>\<open>sep.join(xs)\<close>\<close>

fun py_join :: "string \<Rightarrow> string list \<Rightarrow> string" where
  "py_join sep [] = []"
| "py_join sep [x] = x"
| "py_join sep (x # y # ys) = x @ sep @ py_join sep (y # ys)"

text \<open>\<open>str(n)\<close> for a natural number: its decimal digits.\<close>

definition digit_char :: "nat \<Rightarrow> char" where
  "digit_char d = ''0123456789'' ! d"

function str_nat :: "nat \<Rightarrow> string" where
  "str_nat n = (if n < 10 then [digit_char n] else str_nat (n div 10) @ [digit_char (n mod 10)])"
  by pat_completeness auto
termination
  by (relation "measure (\<lambda>n. n)") auto

text \<open>
  The format specification \<open>.0%\<close>: the value times 100, rounded to an integer with
  ties going to the even neighbour, a minus sign for a negative value, then a percent sign.
\<close>

definition round_half_even :: "real \<Rightarrow> int" where
  "round_half_even x =
     (let f = \<lfloor>x\<rfloor>; d = x - of_int f
      in if d < 1 / 2 then f
         else if 1 / 2 < d then f + 1
         else if even f then f else f + 1)"

definition fmt_pct0 :: "real \<Rightarrow> string" where
  "fmt_pct0 x =
     (let v = x * 100
      in (if v < 0 then ''-'' else '''') @ str_nat (nat (round_half_even \<bar>v\<bar>)) @ ''%'')"

section \<open>Domain model\<close>

text \<open>
  A row of table \<open>finance_apps\<close>. The surrogate keys and the creation time are assigned by
  the database and play no part in scoring; they are left out.
\<close>

record finance_application =
  gross_monthly_income :: real
  net_monthly_income :: real
  job_time_months :: int
  employer :: "string option"
  pay_frequency :: "string option"
  residence_time_months :: int
  rent_or_mortgage :: real
  other_monthly_debt :: real
  desired_payment :: real
  down_payment :: real
  has_repo :: bool
  has_bankruptcy :: bool
  first_time_buyer :: bool
  self_employed :: bool
  dl_on_file :: bool
  poi_on_file :: bool
  por_on_file :: bool
  references_on_file :: bool
  score :: int
  risk_tier :: string
  decision :: string
  scoring_notes :: string

section \<open>Underwriting / scoring logic\<close>

definition compute_pti :: "real \<Rightarrow> real \<Rightarrow> py_error + real" where
  "compute_pti net_income desired_payment' =
     (if net_income \<le> 0 then Inr 1.0
      else py_truediv desired_payment' net_income)"

text \<open>
  The body of \<open>score_application\<close> updates two local variables, \<open>score\<close> and \<open>notes\<close>.
  They are threaded through the rules as a pair; \<open>bump d n\<close> is
  \<open>score += d; notes.append(n)\<close>.
\<close>

type_synonym tally = "int \<times> string list"

definition bump :: "int \<Rightarrow> string \<Rightarrow> tally \<Rightarrow> tally" where
  "bump d n t = (fst t + d, snd t @ [n])"

definition income_strength :: "finance_application \<Rightarrow> tally \<Rightarrow> tally" where
  "income_strength app t =
     (if net_monthly_income app \<ge> 2500 then bump 15 ''Net income strong (>= $2,500).'' t
      else if net_monthly_income app \<ge> 2000 then bump 10 ''Net income good (>= $2,000).'' t
      else if net_monthly_income app \<ge> 1500 then bump 5 ''Net income moderate (>= $1,500).'' t
      else bump (- 10) ''Net income low (< $1,500).'' t)"

definition pti_rule :: "real \<Rightarrow> tally \<Rightarrow> tally" where
  "pti_rule pti t =
     (if pti \<le> 0.20 then bump 15 (''PTI excellent ('' @ fmt_pct0 pti @ '').'') t
      else if pti \<le> 0.25 then bump 10 (''PTI good ('' @ fmt_pct0 pti @ '').'') t
      else if pti \<le> 0.30 then bump 0 (''PTI borderline ('' @ fmt_pct0 pti @ '').'') t
      else bump (- 15) (''PTI high ('' @ fmt_pct0 pti @ '').'') t)"

definition job_time :: "finance_application \<Rightarrow> tally \<Rightarrow> tally" where
  "job_time app t =
     (if job_time_months app \<ge> 24 then bump 10 ''Job time strong (>= 24 mo).'' t
      else if job_time_months app \<ge> 12 then bump 5 ''Job time ok (>= 12 mo).'' t
      else bump (- 10) ''Job time short (< 12 mo).'' t)"

definition residence_time :: "finance_application \<Rightarrow> tally \<Rightarrow> tally" where
  "residence_time app t =
     (if residence_time_months app \<ge> 24 then bump 8 ''Residence time strong (>= 24 mo).'' t
      else if residence_time_months app \<ge> 12 then bump 4 ''Residence time ok (>= 12 mo).'' t
      else bump (- 6) ''Residence time short (< 12 mo).'' t)"

definition down_payment_rule :: "finance_application \<Rightarrow> tally \<Rightarrow> tally" where
  "down_payment_rule app t =
     (if down_payment app \<ge> 1500 then bump 10 ''Down payment strong (>= $1,500).'' t
      else if down_payment app \<ge> 999 then bump 6 ''Down payment ok (>= $999).'' t
      else if down_payment app > 0 then bump 2 ''Down payment low (< $999).'' t
      else bump (- 8) ''No down payment.'' t)"

definition red_flags :: "finance_application \<Rightarrow> tally \<Rightarrow> tally" where
  "red_flags app t =
     (let t1 = (if has_repo app then bump (- 6) ''Repo history flagged.'' t else t);
          t2 = (if has_bankruptcy app then bump (- 6) ''Bankruptcy history flagged.'' t1 else t1);
          t3 = (if self_employed app
                then bump (- 2) ''Self-employed: verify income carefully.'' t2 else t2)
      in if first_time_buyer app then bump (- 1) ''First-time buyer.'' t3 else t3)"

definition missing_items :: "finance_application \<Rightarrow> string list" where
  "missing_items app =
     (let m0 = [];
          m1 = (if \<not> dl_on_file app then m0 @ [''DL''] else m0);
          m2 = (if \<not> poi_on_file app then m1 @ [''POI''] else m1);
          m3 = (if \<not> por_on_file app then m2 @ [''POR''] else m2)
      in if \<not> references_on_file app then m3 @ [''Refs''] else m3)"

definition missing_stips :: "finance_application \<Rightarrow> tally \<Rightarrow> tally" where
  "missing_stips app t =
     (let missing = missing_items app
      in if missing \<noteq> []
         then bump (- min 12 (3 * int (length missing)))
                (''Missing stips: '' @ py_join '', '' missing @ ''.'') t
         else t)"

text \<open>The running total just before the clamp.\<close>

definition running_total :: "finance_application \<Rightarrow> real \<Rightarrow> tally" where
  "running_total app pti =
     missing_stips app (red_flags app (down_payment_rule app (residence_time app
       (job_time app (pti_rule pti (income_strength app (50, [])))))))"

definition tier_decision :: "int \<Rightarrow> finance_application \<Rightarrow> string \<times> string" where
  "tier_decision sc app =
     (if sc \<ge> 80 then (''A'', ''Approve'')
      else if sc \<ge> 65 then (''B'', ''Approve'')
      else if sc \<ge> 50 then (''C'', ''Review'')
      else (''D'', if down_payment app < 999 then ''Counter'' else ''Decline''))"

definition score_application ::
    "finance_application \<Rightarrow> py_error + (int \<times> string \<times> string \<times> string)" where
  "score_application app =
     (case compute_pti (net_monthly_income app) (desired_payment app) of
        Inl e \<Rightarrow> Inl e
      | Inr pti \<Rightarrow>
          (let t = running_total app pti;
               sc = max 0 (min 100 (fst t));
               td = tier_decision sc app
           in Inr (sc, fst td, snd td, py_join '' '' (snd t))))"

text \<open>
  The ``Save Finance Application'' handler. The form's values arrive as an application
  whose result columns are still unset; the table's column defaults (\<open>0\<close>, \<open>Unknown\<close>,
  \<open>Review\<close>, the empty string) are what is stored for them unless the score is run.
\<close>

definition column_defaults :: "finance_application \<Rightarrow> finance_application" where
  "column_defaults app =
     app\<lparr>score := 0, risk_tier := ''Unknown'', decision := ''Review'', scoring_notes := []\<rparr>"

definition save_finance_application ::
    "finance_application \<Rightarrow> bool \<Rightarrow> py_error + finance_application" where
  "save_finance_application form run_score =
     (let app = column_defaults form
      in if run_score
         then (case score_application app of
                 Inl e \<Rightarrow> Inl e
               | Inr (sc, tier, dec, sc_notes) \<Rightarrow>
                   Inr (app\<lparr>score := sc, risk_tier := tier, decision := dec,
                            scoring_notes := sc_notes\<rparr>))
         else Inr app)"

section \<open>Leads and tags\<close>

text \<open>
  The text of a lead comes from uploaded files and form boxes: a Python \<open>str\<close>, that is a
  sequence of Unicode code points, each a natural number. \<open>str_lit\<close> is a string literal
  of the program.
\<close>

type_synonym pystr = "nat list"

definition str_lit :: "string \<Rightarrow> pystr" where
  "str_lit s = map of_char s"

definition HOT_WARM_COLD :: "pystr list" where
  "HOT_WARM_COLD = [str_lit ''Hot'', str_lit ''Warm'', str_lit ''Cold'']"

text \<open>
  A \<open>Tag\<close> as the ``Update Tags'' handler builds it, \<open>Tag(name=t)\<close>; a \<open>Lead\<close> with the
  columns the handlers write and its \<open>tags\<close> collection. Column \<open>zip\<close> is called \<open>zipc\<close>.
\<close>

record tag =
  name :: pystr

record lead =
  first_name :: pystr
  last_name :: pystr
  phone :: "pystr option"
  phone2 :: "pystr option"
  email :: "pystr option"
  address1 :: "pystr option"
  address2 :: "pystr option"
  city :: "pystr option"
  state :: "pystr option"
  zipc :: "pystr option"
  source :: "pystr option"
  status :: pystr
  assigned_to :: "pystr option"
  tags :: "tag list"

subsection \<open>Helpers\<close>

text \<open>
  \<open>str.strip()\<close> removes the leading and the trailing whitespace. The whitespace code
  points of Python are U+0009 to U+000D, U+001C to U+0020, U+0085, U+00A0, U+1680,
  U+2000 to U+200A, U+2028, U+2029, U+202F, U+205F and U+3000.
\<close>

definition is_space :: "nat \<Rightarrow> bool" where
  "is_space c =
     ((0x09 \<le> c \<and> c \<le> 0x0D) \<or> (0x1C \<le> c \<and> c \<le> 0x20) \<or> c = 0x85 \<or> c = 0xA0 \<or>
      c = 0x1680 \<or> (0x2000 \<le> c \<and> c \<le> 0x200A) \<or> c = 0x2028 \<or> c = 0x2029 \<or>
      c = 0x202F \<or> c = 0x205F \<or> c = 0x3000)"

definition py_strip :: "pystr \<Rightarrow> pystr" where
  "py_strip s = rev (dropWhile is_space (rev (dropWhile is_space s)))"

text \<open>
  A cell of the uploaded table: missing (\<open>pd.isna\<close> holds), or a value, carried as the
  text \<open>str\<close> gives for it (a text cell is its own text).
\<close>

datatype cell = NA | Val pystr

definition safe_str :: "cell \<Rightarrow> pystr" where
  "safe_str x = (case x of NA \<Rightarrow> [] | Val s \<Rightarrow> py_strip s)"

text \<open>A row of the table: column labels with their cells; \<open>row.get(key, default)\<close>.\<close>

type_synonym row = "(pystr \<times> cell) list"

definition row_get :: "row \<Rightarrow> pystr \<Rightarrow> pystr \<Rightarrow> cell" where
  "row_get r key dflt = (case map_of r key of None \<Rightarrow> Val dflt | Some v \<Rightarrow> v)"

text \<open>\<open>a or b\<close> on strings: the empty string is false.\<close>

definition py_or :: "pystr \<Rightarrow> pystr \<Rightarrow> pystr" where
  "py_or a b = (if a = [] then b else a)"

subsection \<open>Import Leads\<close>

definition lead_of_row :: "row \<Rightarrow> lead" where
  "lead_of_row r =
     (let l = \<lparr>first_name = safe_str (row_get r (str_lit ''first_name'') []),
               last_name = safe_str (row_get r (str_lit ''last_name'') []),
               phone = Some (safe_str (row_get r (str_lit ''phone'') [])),
               phone2 = Some (safe_str (row_get r (str_lit ''phone2'') [])),
               email = Some (safe_str (row_get r (str_lit ''email'') [])),
               address1 = Some (safe_str (row_get r (str_lit ''address1'') [])),
               address2 = Some (safe_str (row_get r (str_lit ''address2'') [])),
               city = Some (safe_str (row_get r (str_lit ''city'') [])),
               state = Some (safe_str (row_get r (str_lit ''state'') [])),
               zipc = Some (safe_str (row_get r (str_lit ''zip'') [])),
               source = Some (safe_str (row_get r (str_lit ''source'') [])),
               status = py_or (safe_str (row_get r (str_lit ''status'') (str_lit ''Warm'')))
                          (str_lit ''Warm''),
               assigned_to = Some (safe_str (row_get r (str_lit ''assigned_to'') [])),
               tags = []\<rparr>
      in if status l \<notin> set HOT_WARM_COLD then l\<lparr>status := str_lit ''Warm''\<rparr> else l)"

text \<open>
  The loop of ``Import These Leads'' over the rows, on the table of stored leads and the
  counter \<open>imported\<close>.
\<close>

fun import_rows :: "row list \<Rightarrow> lead list \<times> nat \<Rightarrow> lead list \<times> nat" where
  "import_rows [] st = st"
| "import_rows (r # rs) st = import_rows rs (fst st @ [lead_of_row r], snd st + 1)"

definition import_these_leads :: "lead list \<Rightarrow> row list \<Rightarrow> lead list \<times> nat" where
  "import_these_leads db rows = import_rows rows (db, 0)"

subsection \<open>Create Lead\<close>

text \<open>The values of the form's widgets.\<close>

record lead_form =
  f_first_name :: pystr
  f_last_name :: pystr
  f_status :: pystr
  f_phone :: pystr
  f_phone2 :: pystr
  f_email :: pystr
  f_address1 :: pystr
  f_city :: pystr
  f_state :: pystr
  f_zipc :: pystr
  f_source :: pystr
  f_assigned_to :: pystr

text \<open>
  ``Save Lead'': \<open>Inl\<close> is the message of \<open>st.error\<close>, with nothing written; \<open>Inr\<close> is the
  table after the new lead is added and committed. The test is made on the text as
  typed; the names are stripped only when the lead is built.
\<close>

definition save_lead :: "lead list \<Rightarrow> lead_form \<Rightarrow> string + lead list" where
  "save_lead db f =
     (if f_first_name f = [] \<and> f_last_name f = []
      then Inl ''Add at least a first or last name.''
      else Inr (db @ [\<lparr>first_name = py_strip (f_first_name f),
                        last_name = py_strip (f_last_name f),
                        phone = Some (py_strip (f_phone f)),
                        phone2 = Some (py_strip (f_phone2 f)),
                        email = Some (py_strip (f_email f)),
                        address1 = Some (py_strip (f_address1 f)),
                        address2 = None,
                        city = Some (py_strip (f_city f)),
                        state = Some (py_strip (f_state f)),
                        zipc = Some (py_strip (f_zipc f)),
                        source = Some (py_strip (f_source f)),
                        status = f_status f,
                        assigned_to = Some (py_strip (f_assigned_to f)),
                        tags = []\<rparr>]))"

text \<open>
  ``Save Note'', the neighbouring handler: it tests the stripped body, so a body of
  spaces only is refused. \<open>Inr\<close> is the body that is stored.
\<close>

definition save_note :: "pystr \<Rightarrow> string + pystr" where
  "save_note note_body =
     (if py_strip note_body = [] then Inl ''Note can't be empty.''
      else Inr (py_strip note_body))"

subsection \<open>Update Tags\<close>

fun append_tags :: "pystr list \<Rightarrow> tag list \<Rightarrow> tag list" where
  "append_tags [] ts = ts"
| "append_tags (t # new_tags) ts = append_tags new_tags (ts @ [\<lparr>name = t\<rparr>])"

definition update_tags :: "lead \<Rightarrow> pystr list \<Rightarrow> lead" where
  "update_tags l new_tags =
     (let cleared = l\<lparr>tags := []\<rparr>
      in cleared\<lparr>tags := append_tags new_tags (tags cleared)\<rparr>)"

text \<open>The tag set of a lead as the views show it, \<open>{t.name for t in lead.tags}\<close>.\<close>

definition tag_names :: "lead \<Rightarrow> pystr set" where
  "tag_names l = set (map name (tags l))"

section \<open>Reference formulations and sample data\<close>



text \<open>The two example scenarios of the specification.\<close>

definition scenario1 :: finance_application where
  "scenario1 =
     \<lparr>gross_monthly_income = 2500, net_monthly_income = 2000, job_time_months = 12,
      employer = None, pay_frequency = Some ''biweekly'', residence_time_months = 12,
      rent_or_mortgage = 800, other_monthly_debt = 150, desired_payment = 450,
      down_payment = 999, has_repo = False, has_bankruptcy = False,
      first_time_buyer = False, self_employed = False, dl_on_file = True,
      poi_on_file = True, por_on_file = True, references_on_file = True,
      score = 0, risk_tier = ''Unknown'', decision = ''Review'', scoring_notes = []\<rparr>"

definition scenario2 :: finance_application where
  "scenario2 =
     \<lparr>gross_monthly_income = 1500, net_monthly_income = 1200, job_time_months = 6,
      employer = None, pay_frequency = Some ''weekly'', residence_time_months = 6,
      rent_or_mortgage = 700, other_monthly_debt = 0, desired_payment = 500,
      down_payment = 0, has_repo = True, has_bankruptcy = True,
      first_time_buyer = False, self_employed = False, dl_on_file = False,
      poi_on_file = False, por_on_file = False, references_on_file = False,
      score = 0, risk_tier = ''Unknown'', decision = ''Review'', scoring_notes = []\<rparr>"

text \<open>
  Sample rows of an uploaded table, a stored lead and submissions of the form. The status
  cell of \<open>row_padded_hot\<close> is \<open>Hot\<close> after a space, that of \<open>row_nbsp_hot\<close> is \<open>Hot\<close>
  after a no-break space (U+00A0); the first name of \<open>form_spaces_name\<close> is one space.
\<close>

definition row_unknown :: row where
  "row_unknown =
     [(str_lit ''first_name'', Val (str_lit ''Ann'')), (str_lit ''status'', Val (str_lit ''Unknown''))]"

definition row_padded_hot :: row where
  "row_padded_hot =
     [(str_lit ''first_name'', Val (str_lit ''Bob'')), (str_lit ''status'', Val (str_lit '' Hot''))]"

definition row_nbsp_hot :: row where
  "row_nbsp_hot =
     [(str_lit ''first_name'', Val (str_lit ''Cy'')), (str_lit ''status'', Val (0xA0 # str_lit ''Hot''))]"

definition row_blank_names :: row where
  "row_blank_names =
     [(str_lit ''first_name'', Val []), (str_lit ''last_name'', NA),
      (str_lit ''phone'', Val (str_lit ''5550100''))]"

definition sample_lead :: lead where
  "sample_lead =
     \<lparr>first_name = str_lit ''Ann'', last_name = str_lit ''Lee'',
      phone = Some (str_lit ''5550100''), phone2 = None,
      email = None, address1 = None, address2 = None, city = None, state = None,
      zipc = None, source = Some (str_lit ''Walk-in''), status = str_lit ''Hot'',
      assigned_to = None,
      tags = [\<lparr>name = str_lit ''Repo''\<rparr>, \<lparr>name = str_lit ''Need Stips''\<rparr>]\<rparr>"

definition form_no_name :: lead_form where
  "form_no_name =
     \<lparr>f_first_name = [], f_last_name = [], f_status = str_lit ''Warm'', f_phone = [],
      f_phone2 = [], f_email = [], f_address1 = [], f_city = [], f_state = [],
      f_zipc = [], f_source = [], f_assigned_to = []\<rparr>"

definition form_spaces_name :: lead_form where
  "form_spaces_name =
     \<lparr>f_first_name = str_lit '' '', f_last_name = [], f_status = str_lit ''Warm'',
      f_phone = [], f_phone2 = [], f_email = [], f_address1 = [], f_city = [],
      f_state = [], f_zipc = [], f_source = [], f_assigned_to = []\<rparr>"

section \<open>Auxiliary facts\<close>

declare str_nat.simps [simp del]

lemmas rule_defs = income_strength_def pti_rule_def job_time_def residence_time_def
  down_payment_rule_def red_flags_def missing_stips_def bump_def

lemma compute_pti_Inr: "compute_pti n d = Inr (if n \<le> 0 then 1 else d / n)"
  by (simp add: compute_pti_def py_truediv_def)

lemma score_application_Inr:
  "score_application app =
     (let pti = (if net_monthly_income app \<le> 0 then 1
                 else desired_payment app / net_monthly_income app);
          t = running_total app pti;
          sc = max 0 (min 100 (fst t))
      in Inr (sc, fst (tier_decision sc app), snd (tier_decision sc app),
              py_join '' '' (snd t)))"
  by (simp add: score_application_def compute_pti_Inr Let_def)

lemma score_application_shape:
  "\<exists>sc n. score_application app =
            Inr (sc, fst (tier_decision sc app), snd (tier_decision sc app), n)
     \<and> 0 \<le> sc \<and> sc \<le> 100"
  by (simp add: score_application_Inr Let_def)

lemma tier_table:
  assumes "0 \<le> s" "s \<le> 100"
  shows "(80 \<le> s \<longrightarrow> tier_decision s app = (''A'', ''Approve'')) \<and>
         (65 \<le> s \<and> s \<le> 79 \<longrightarrow> tier_decision s app = (''B'', ''Approve'')) \<and>
         (50 \<le> s \<and> s \<le> 64 \<longrightarrow> tier_decision s app = (''C'', ''Review'')) \<and>
         (s < 50 \<longrightarrow> tier_decision s app =
            (''D'', if down_payment app < 999 then ''Counter'' else ''Decline'')) \<and>
         length (filter (\<lambda>(lo, hi). lo \<le> s \<and> s \<le> hi)
           [(80, 100), (65, 79), (50, 64), (0, 49)]) = 1"
  using assms by (auto simp: tier_decision_def)

lemma tier_decision_range:
  "fst (tier_decision s app) \<in> {''A'', ''B'', ''C'', ''D''} \<and>
   snd (tier_decision s app) \<in> {''Approve'', ''Counter'', ''Review'', ''Decline''}"
  by (simp add: tier_decision_def)

lemma str_nat_42: "str_nat 42 = ''42''"
  by (simp add: str_nat.simps [of 42] str_nat.simps [of 4] digit_char_def)

lemma str_nat_22: "str_nat 22 = ''22''"
  by (simp add: str_nat.simps [of 22] str_nat.simps [of 2] digit_char_def)

lemma fmt_pct0_5_12: "fmt_pct0 (5 / 12) = ''42%''"
proof -
  have "round_half_even (125 / 3) = 42"
    by (simp add: round_half_even_def Let_def)
  then show ?thesis
    by (simp add: fmt_pct0_def Let_def str_nat_42)
qed

lemma fmt_pct0_9_40: "fmt_pct0 (9 / 40) = ''22%''"
proof -
  have "round_half_even (45 / 2) = 22"
    by (simp add: round_half_even_def Let_def)
  then show ?thesis
    by (simp add: fmt_pct0_def Let_def str_nat_22)
qed

lemma running_total_scenario1:
  "running_total scenario1 (9 / 40) =
     (85, [''Net income good (>= $2,000).'', ''PTI good (22%).'', ''Job time ok (>= 12 mo).'',
           ''Residence time ok (>= 12 mo).'', ''Down payment ok (>= $999).''])"
  by (simp add: scenario1_def running_total_def rule_defs missing_items_def fmt_pct0_9_40 Let_def)

lemma score_application_scenario1:
  "score_application scenario1 =
     Inr (85, ''A'', ''Approve'',
          ''Net income good (>= $2,000). PTI good (22%). Job time ok (>= 12 mo). Residence time ok (>= 12 mo). Down payment ok (>= $999).'')"
proof -
  have "net_monthly_income scenario1 = 2000" "desired_payment scenario1 = 450"
    by (simp_all add: scenario1_def)
  then show ?thesis
    by (simp add: score_application_Inr running_total_scenario1 tier_decision_def)
qed

lemma running_total_scenario2_values:
  assumes "net_monthly_income app = 1200" "desired_payment app = 500"
    "job_time_months app = 6" "residence_time_months app = 6" "down_payment app = 0"
    "has_repo app" "has_bankruptcy app" "\<not> first_time_buyer app" "\<not> self_employed app"
    "\<not> dl_on_file app" "\<not> poi_on_file app" "\<not> por_on_file app" "\<not> references_on_file app"
  shows "running_total app (5 / 12) =
     (- 23, [''Net income low (< $1,500).'', ''PTI high (42%).'', ''Job time short (< 12 mo).'',
             ''Residence time short (< 12 mo).'', ''No down payment.'', ''Repo history flagged.'',
             ''Bankruptcy history flagged.'', ''Missing stips: DL, POI, POR, Refs.''])"
  using assms
  by (simp add: running_total_def rule_defs missing_items_def fmt_pct0_5_12 Let_def)

lemma score_application_scenario2:
  "score_application scenario2 =
     Inr (0, ''D'', ''Counter'',
          ''Net income low (< $1,500). PTI high (42%). Job time short (< 12 mo). Residence time short (< 12 mo). No down payment. Repo history flagged. Bankruptcy history flagged. Missing stips: DL, POI, POR, Refs.'')"
proof -
  have rt: "running_total scenario2 (5 / 12) =
     (- 23, [''Net income low (< $1,500).'', ''PTI high (42%).'', ''Job time short (< 12 mo).'',
             ''Residence time short (< 12 mo).'', ''No down payment.'', ''Repo history flagged.'',
             ''Bankruptcy history flagged.'', ''Missing stips: DL, POI, POR, Refs.''])"
    by (rule running_total_scenario2_values) (simp_all add: scenario2_def)
  have "net_monthly_income scenario2 = 1200" "desired_payment scenario2 = 500"
    "down_payment scenario2 = 0"
    by (simp_all add: scenario2_def)
  then show ?thesis
    by (simp add: score_application_Inr rt tier_decision_def)
qed





lemma import_rows_eq:
  "import_rows rows st = (fst st @ map lead_of_row rows, snd st + length rows)"
  by (induction rows arbitrary: st) simp_all

lemma import_these_leads_eq:
  "import_these_leads db rows = (db @ map lead_of_row rows, length rows)"
  by (simp add: import_these_leads_def import_rows_eq)

lemma append_tags_eq: "append_tags new_tags ts = ts @ map (\<lambda>t. \<lparr>name = t\<rparr>) new_tags"
  by (induction new_tags arbitrary: ts) simp_all

lemma status_lead_of_row:
  "status (lead_of_row r) =
     (if safe_str (row_get r (str_lit ''status'') (str_lit ''Warm'')) \<in> set HOT_WARM_COLD
      then safe_str (row_get r (str_lit ''status'') (str_lit ''Warm'')) else str_lit ''Warm'')"
  by (simp add: lead_of_row_def Let_def py_or_def HOT_WARM_COLD_def str_lit_def)

lemma py_strip_samples:
  "py_strip (str_lit ''Unknown'') = str_lit ''Unknown''"
  "py_strip (str_lit '' Hot'') = str_lit ''Hot''"
  "py_strip (0xA0 # str_lit ''Hot'') = str_lit ''Hot''"
  "py_strip (str_lit ''Warm'') = str_lit ''Warm''"
  "py_strip (str_lit '' '') = []"
  "py_strip [] = []"
  by (simp_all add: py_strip_def is_space_def str_lit_def)

section \<open>The scoring engine\<close>

text \<open>
  C1. For every application, whatever its numeric fields and flags, \<open>score_application\<close>
  returns (it does not raise) and the score it returns lies between 0 and 100.
\<close>

theorem score_application_bounded:
  "\<exists>s t d n. score_application app = Inr (s, t, d, n) \<and> 0 \<le> s \<and> s \<le> 100"
  by (simp add: score_application_Inr Let_def)

theorem score_application_bounded_witness:
  "\<exists>s t d n. score_application scenario2 = Inr (s, t, d, n) \<and> 0 \<le> s \<and> s \<le> 100"
  by (rule score_application_bounded)

text \<open>
  C2. The tier and decision returned by \<open>score_application\<close> are a function of the
  returned (clamped) score and the down payment alone, and follow the table: 80 and above
  gives A and Approve, 65 to 79 gives B and Approve, 50 to 64 gives C and Review, below 50
  gives D with Counter when the down payment is below 999 and Decline otherwise. Exactly
  one of the four ranges holds the returned score.
\<close>

theorem tier_decision_table:
  "\<exists>s t d n. score_application app = Inr (s, t, d, n) \<and>
     (\<forall>app'. down_payment app' = down_payment app \<longrightarrow> tier_decision s app' = (t, d)) \<and>
     (80 \<le> s \<longrightarrow> t = ''A'' \<and> d = ''Approve'') \<and>
     (65 \<le> s \<and> s \<le> 79 \<longrightarrow> t = ''B'' \<and> d = ''Approve'') \<and>
     (50 \<le> s \<and> s \<le> 64 \<longrightarrow> t = ''C'' \<and> d = ''Review'') \<and>
     (s < 50 \<longrightarrow> t = ''D'' \<and>
        d = (if down_payment app < 999 then ''Counter'' else ''Decline'')) \<and>
     length (filter (\<lambda>(lo, hi). lo \<le> s \<and> s \<le> hi)
       [(80, 100), (65, 79), (50, 64), (0, 49)]) = 1"
proof -
  obtain sc n where eq: "score_application app =
      Inr (sc, fst (tier_decision sc app), snd (tier_decision sc app), n)"
    and lo: "0 \<le> sc" and hi: "sc \<le> 100"
    using score_application_shape by blast
  have same: "\<forall>app'. down_payment app' = down_payment app \<longrightarrow>
      tier_decision sc app' = (fst (tier_decision sc app), snd (tier_decision sc app))"
    by (simp add: tier_decision_def)
  from tier_table [OF lo hi, of app] have
    "(80 \<le> sc \<longrightarrow> fst (tier_decision sc app) = ''A'' \<and> snd (tier_decision sc app) = ''Approve'') \<and>
     (65 \<le> sc \<and> sc \<le> 79 \<longrightarrow>
        fst (tier_decision sc app) = ''B'' \<and> snd (tier_decision sc app) = ''Approve'') \<and>
     (50 \<le> sc \<and> sc \<le> 64 \<longrightarrow>
        fst (tier_decision sc app) = ''C'' \<and> snd (tier_decision sc app) = ''Review'') \<and>
     (sc < 50 \<longrightarrow> fst (tier_decision sc app) = ''D'' \<and>
        snd (tier_decision sc app) =
          (if down_payment app < 999 then ''Counter'' else ''Decline'')) \<and>
     length (filter (\<lambda>(lo, hi). lo \<le> sc \<and> sc \<le> hi)
       [(80, 100), (65, 79), (50, 64), (0, 49)]) = 1"
    by (cases "tier_decision sc app") simp
  with eq same show ?thesis by blast
qed

theorem tier_decision_table_witness:
  "(\<exists>s t d n. score_application scenario1 = Inr (s, t, d, n) \<and> 80 \<le> s \<and>
      t = ''A'' \<and> d = ''Approve'') \<and>
   (\<exists>s t d n. score_application scenario2 = Inr (s, t, d, n) \<and> s < 50 \<and>
      down_payment scenario2 < 999 \<and> t = ''D'' \<and> d = ''Counter'')"
  using tier_decision_table [of scenario1] tier_decision_table [of scenario2]
  by (simp add: score_application_scenario1 score_application_scenario2)
     (simp add: scenario2_def)

text \<open>
  C3. \<open>compute_pti\<close> returns 1.0 when the net income is zero or negative and the desired
  payment divided by the net income otherwise; \<open>compute_pti(1000, 250)\<close> is 0.25; the
  division is never reached with a zero divisor, so no \<open>ZeroDivisionError\<close> comes out.
\<close>

theorem compute_pti_guarded:
  "(n \<le> 0 \<longrightarrow> compute_pti n d = Inr 1.0) \<and>
   (0 < n \<longrightarrow> compute_pti n d = Inr (d / n)) \<and>
   compute_pti 1000 250 = Inr 0.25 \<and>
   (\<forall>e. compute_pti n d \<noteq> Inl e)"
  by (simp add: compute_pti_def py_truediv_def)

theorem compute_pti_guarded_witness:
  "compute_pti 0 500 = Inr 1.0 \<and> compute_pti 1200 500 = Inr (500 / 1200) \<and>
   compute_pti (- 5) 500 \<noteq> Inl ZeroDivisionError"
  using compute_pti_guarded [of 0 500] compute_pti_guarded [of 1200 500]
    compute_pti_guarded [of "- 5" 500]
  by simp

text \<open>
  C4. The second example scenario: net income 1200, desired payment 500, six months on the
  job and at the residence, no down payment, a repossession and a bankruptcy, not a
  first-time buyer, not self-employed, nothing on file. The running total is -23, the
  score 0, the tier D and the decision Counter; the other fields do not matter.
\<close>

theorem scenario2_counter:
  assumes "net_monthly_income app = 1200" "desired_payment app = 500"
    "job_time_months app = 6" "residence_time_months app = 6" "down_payment app = 0"
    "has_repo app" "has_bankruptcy app" "\<not> first_time_buyer app" "\<not> self_employed app"
    "\<not> dl_on_file app" "\<not> poi_on_file app" "\<not> por_on_file app" "\<not> references_on_file app"
  shows "fst (running_total app (500 / 1200)) = - 23 \<and>
     score_application app =
       Inr (0, ''D'', ''Counter'',
            ''Net income low (< $1,500). PTI high (42%). Job time short (< 12 mo). Residence time short (< 12 mo). No down payment. Repo history flagged. Bankruptcy history flagged. Missing stips: DL, POI, POR, Refs.'')"
proof -
  have rt: "running_total app (5 / 12) =
     (- 23, [''Net income low (< $1,500).'', ''PTI high (42%).'', ''Job time short (< 12 mo).'',
             ''Residence time short (< 12 mo).'', ''No down payment.'', ''Repo history flagged.'',
             ''Bankruptcy history flagged.'', ''Missing stips: DL, POI, POR, Refs.''])"
    using assms by (rule running_total_scenario2_values)
  from assms(1,2,5) show ?thesis
    by (simp add: score_application_Inr rt tier_decision_def)
qed

theorem scenario2_counter_witness:
  "fst (running_total scenario2 (500 / 1200)) = - 23 \<and>
   (\<exists>n. score_application scenario2 = Inr (0, ''D'', ''Counter'', n))"
  using scenario2_counter [of scenario2]
  by (simp add: scenario2_def)



text \<open>
  C6. Two applications that differ only in net monthly income, the first below 1500 and
  the second above 2500: the income rule contributes -10 to the first and +15 to the
  second, so its contribution does not decrease.
\<close>

theorem income_rule_monotone:
  assumes "net_monthly_income a < 1500" "2500 < x" "b = a\<lparr>net_monthly_income := x\<rparr>"
  shows "fst (income_strength a t) - fst t = - 10 \<and>
         fst (income_strength b t) - fst t = 15 \<and>
         fst (income_strength a t) - fst t \<le> fst (income_strength b t) - fst t"
  using assms by (simp add: income_strength_def bump_def)

theorem income_rule_monotone_witness:
  "net_monthly_income scenario2 < 1500 \<and> (2500::real) < 3000 \<and>
   fst (income_strength scenario2 (50, [])) = 40 \<and>
   fst (income_strength (scenario2\<lparr>net_monthly_income := 3000\<rparr>) (50, [])) = 65"
proof -
  have lo: "net_monthly_income scenario2 < 1500"
    by (simp add: scenario2_def)
  have hi: "(2500::real) < 3000"
    by simp
  from income_rule_monotone [OF lo hi refl, of "(50, [])"] lo hi show ?thesis
    by simp
qed

text \<open>
  C9. \<open>score_application\<close> always returns a tier among A, B, C, D (never \<open>Unknown\<close>) and a
  decision among Approve, Counter, Review, Decline. A saved application carries the tier
  \<open>Unknown\<close> exactly when it was saved without scoring, and then its decision is the
  default \<open>Review\<close>.
\<close>

theorem score_application_tier_range:
  "(\<exists>s t d n. score_application app = Inr (s, t, d, n) \<and>
      t \<in> {''A'', ''B'', ''C'', ''D''} \<and> t \<noteq> ''Unknown'' \<and>
      d \<in> {''Approve'', ''Counter'', ''Review'', ''Decline''}) \<and>
   (\<exists>a. save_finance_application form False = Inr a \<and>
      risk_tier a = ''Unknown'' \<and> decision a = ''Review'') \<and>
   (\<forall>run. \<exists>a. save_finance_application form run = Inr a \<and>
      (risk_tier a = ''Unknown'' \<longleftrightarrow> \<not> run) \<and>
      (run \<longrightarrow> risk_tier a \<in> {''A'', ''B'', ''C'', ''D''} \<and>
         decision a \<in> {''Approve'', ''Counter'', ''Review'', ''Decline''}))"
proof -
  obtain sc n where eq: "score_application app =
      Inr (sc, fst (tier_decision sc app), snd (tier_decision sc app), n)"
    using score_application_shape by blast
  have t_ne: "fst (tier_decision s a) \<noteq> ''Unknown''" for s a
    by (simp add: tier_decision_def)
  have first: "\<exists>s t d n. score_application app = Inr (s, t, d, n) \<and>
      t \<in> {''A'', ''B'', ''C'', ''D''} \<and> t \<noteq> ''Unknown'' \<and>
      d \<in> {''Approve'', ''Counter'', ''Review'', ''Decline''}"
    using eq tier_decision_range [of sc app] t_ne [of sc app] by blast
  have unscored: "save_finance_application form False = Inr (column_defaults form)"
    by (simp add: save_finance_application_def)
  have defaults: "risk_tier (column_defaults form) = ''Unknown''"
    "decision (column_defaults form) = ''Review''"
    by (simp_all add: column_defaults_def)
  obtain sc' n' where eq': "score_application (column_defaults form) =
      Inr (sc', fst (tier_decision sc' (column_defaults form)),
           snd (tier_decision sc' (column_defaults form)), n')"
    using score_application_shape by blast
  have scored: "\<exists>a. save_finance_application form True = Inr a \<and>
      risk_tier a \<noteq> ''Unknown'' \<and> risk_tier a \<in> {''A'', ''B'', ''C'', ''D''} \<and>
      decision a \<in> {''Approve'', ''Counter'', ''Review'', ''Decline''}"
    using tier_decision_range [of sc' "column_defaults form"] t_ne [of sc' "column_defaults form"]
    by (simp add: save_finance_application_def eq' Let_def)
  have both: "\<exists>a. save_finance_application form run = Inr a \<and>
      (risk_tier a = ''Unknown'' \<longleftrightarrow> \<not> run) \<and>
      (run \<longrightarrow> risk_tier a \<in> {''A'', ''B'', ''C'', ''D''} \<and>
         decision a \<in> {''Approve'', ''Counter'', ''Review'', ''Decline''})" for run
  proof (cases run)
    case True
    with scored show ?thesis by auto
  next
    case False
    with unscored defaults show ?thesis by simp
  qed
  from first unscored defaults both show ?thesis
    by simp
qed

theorem score_application_tier_range_witness:
  "(\<exists>a. save_finance_application scenario1 True = Inr a \<and> risk_tier a \<noteq> ''Unknown'' \<and>
      risk_tier a \<in> {''A'', ''B'', ''C'', ''D''}) \<and>
   (\<exists>a. save_finance_application scenario1 False = Inr a \<and> risk_tier a = ''Unknown'')"
  using score_application_tier_range [of scenario1 scenario1]
  by (metis (full_types))

section \<open>Leads: import, creation and tags\<close>

text \<open>
  C7, as stated: every imported row is stored with a status among Hot, Warm, Cold, and a
  row whose status value is not one of the three is stored as Warm. The second half
  fails for a value that only becomes one of the three once \<open>safe_str\<close> has stripped
  it: the cell \<open>" Hot"\<close> is not in the list, yet the lead is stored as Hot.
\<close>

theorem import_status_counterexample:
  "map_of row_padded_hot (str_lit ''status'') = Some (Val (str_lit '' Hot'')) \<and>
   str_lit '' Hot'' \<notin> set HOT_WARM_COLD \<and>
   status (lead_of_row row_padded_hot) = str_lit ''Hot'' \<and>
   status (lead_of_row row_padded_hot) \<noteq> str_lit ''Warm''"
proof -
  have cell: "map_of row_padded_hot (str_lit ''status'') = Some (Val (str_lit '' Hot''))"
    by (simp add: row_padded_hot_def str_lit_def)
  have outside: "str_lit '' Hot'' \<notin> set HOT_WARM_COLD"
    by (simp add: HOT_WARM_COLD_def str_lit_def)
  have inside: "str_lit ''Hot'' \<in> set HOT_WARM_COLD"
    by (simp add: HOT_WARM_COLD_def)
  have stored: "status (lead_of_row row_padded_hot) = str_lit ''Hot''"
    using inside
    by (simp add: status_lead_of_row row_get_def cell safe_str_def py_strip_samples)
  have differ: "str_lit ''Hot'' \<noteq> str_lit ''Warm''"
    by (simp add: str_lit_def)
  from cell outside stored differ show ?thesis
    by simp
qed

text \<open>
  C7, amended: every imported row is stored with a status among Hot, Warm, Cold. The
  stored status is the text of the status cell with surrounding whitespace stripped when
  that is one of the three, and Warm in every other case: a missing column, a missing or
  blank cell, the value \<open>Unknown\<close>, or any other text that does not strip to one of the
  three.
\<close>

theorem import_status_coercion:
  "status (lead_of_row r) \<in> set HOT_WARM_COLD \<and>
   (map_of r (str_lit ''status'') = None \<longrightarrow> status (lead_of_row r) = str_lit ''Warm'') \<and>
   (map_of r (str_lit ''status'') = Some NA \<longrightarrow> status (lead_of_row r) = str_lit ''Warm'') \<and>
   (map_of r (str_lit ''status'') = Some (Val (str_lit ''Unknown'')) \<longrightarrow>
      status (lead_of_row r) = str_lit ''Warm'') \<and>
   (\<forall>s. map_of r (str_lit ''status'') = Some (Val s) \<longrightarrow>
      status (lead_of_row r) =
        (if py_strip s \<in> set HOT_WARM_COLD then py_strip s else str_lit ''Warm''))"
proof -
  have warm: "str_lit ''Warm'' \<in> set HOT_WARM_COLD"
    by (simp add: HOT_WARM_COLD_def)
  have empty: "[] \<notin> set HOT_WARM_COLD"
    by (simp add: HOT_WARM_COLD_def str_lit_def)
  have unknown: "str_lit ''Unknown'' \<notin> set HOT_WARM_COLD"
    by (simp add: HOT_WARM_COLD_def str_lit_def)
  have "status (lead_of_row r) \<in> set HOT_WARM_COLD"
    using warm by (simp add: status_lead_of_row)
  moreover have "status (lead_of_row r) = str_lit ''Warm''"
    if "map_of r (str_lit ''status'') = None"
    using that
    by (simp add: status_lead_of_row row_get_def safe_str_def py_strip_samples)
  moreover have "status (lead_of_row r) = str_lit ''Warm''"
    if "map_of r (str_lit ''status'') = Some NA"
    using that empty
    by (simp add: status_lead_of_row row_get_def safe_str_def)
  moreover have "status (lead_of_row r) =
      (if py_strip s \<in> set HOT_WARM_COLD then py_strip s else str_lit ''Warm'')"
    if "map_of r (str_lit ''status'') = Some (Val s)" for s
    using that
    by (simp add: status_lead_of_row row_get_def safe_str_def)
  moreover have "py_strip (str_lit ''Unknown'') \<notin> set HOT_WARM_COLD"
    using unknown by (simp add: py_strip_samples)
  ultimately show ?thesis
    by simp
qed

theorem import_status_coercion_witness:
  "map_of row_unknown (str_lit ''status'') = Some (Val (str_lit ''Unknown'')) \<and>
   status (lead_of_row row_unknown) = str_lit ''Warm'' \<and>
   map_of row_blank_names (str_lit ''status'') = None \<and>
   status (lead_of_row row_blank_names) = str_lit ''Warm'' \<and>
   map_of row_nbsp_hot (str_lit ''status'') = Some (Val (0xA0 # str_lit ''Hot'')) \<and>
   status (lead_of_row row_nbsp_hot) = str_lit ''Hot''"
proof -
  have c1: "map_of row_unknown (str_lit ''status'') = Some (Val (str_lit ''Unknown''))"
    by (simp add: row_unknown_def str_lit_def)
  have c2: "map_of row_blank_names (str_lit ''status'') = None"
    by (simp add: row_blank_names_def str_lit_def)
  have c3: "map_of row_nbsp_hot (str_lit ''status'') = Some (Val (0xA0 # str_lit ''Hot''))"
    by (simp add: row_nbsp_hot_def str_lit_def)
  have hot: "str_lit ''Hot'' \<in> set HOT_WARM_COLD"
    by (simp add: HOT_WARM_COLD_def)
  from import_status_coercion [of row_unknown] import_status_coercion [of row_blank_names]
    import_status_coercion [of row_nbsp_hot] c1 c2 c3 hot
  show ?thesis
    by (simp add: py_strip_samples)
qed

text \<open>
  C8. Replacing a lead's tags (clear, then add each given tag) twice with the same tags
  leaves the lead exactly as replacing them once does: its tag set is the given set, and
  when the given tags are pairwise different no tag is stored twice.
\<close>

theorem update_tags_idempotent:
  "update_tags (update_tags l ts) ts = update_tags l ts \<and>
   tag_names (update_tags (update_tags l ts) ts) = set ts \<and>
   tag_names (update_tags l ts) = set ts \<and>
   (distinct ts \<longrightarrow> distinct (map name (tags (update_tags (update_tags l ts) ts))))"
proof -
  have names: "map name (tags (update_tags l' ts)) = ts" for l'
    by (simp add: update_tags_def append_tags_eq Let_def comp_def)
  have twice: "update_tags (update_tags l ts) ts = update_tags l ts"
    by (simp add: update_tags_def append_tags_eq Let_def)
  from names [of l] names [of "update_tags l ts"] twice show ?thesis
    by (simp add: tag_names_def)
qed

theorem update_tags_idempotent_witness:
  "distinct [str_lit ''Repo'', str_lit ''Need Insurance''] \<and>
   map name (tags (update_tags
     (update_tags sample_lead [str_lit ''Repo'', str_lit ''Need Insurance''])
     [str_lit ''Repo'', str_lit ''Need Insurance''])) =
     [str_lit ''Repo'', str_lit ''Need Insurance''] \<and>
   tag_names (update_tags sample_lead [str_lit ''Repo'', str_lit ''Need Insurance'']) =
     {str_lit ''Repo'', str_lit ''Need Insurance''}"
proof -
  have d: "distinct [str_lit ''Repo'', str_lit ''Need Insurance'']"
    by (simp add: str_lit_def)
  have n: "map name (tags (update_tags l [str_lit ''Repo'', str_lit ''Need Insurance''])) =
      [str_lit ''Repo'', str_lit ''Need Insurance'']" for l
    by (simp add: update_tags_def Let_def)
  from update_tags_idempotent [of sample_lead "[str_lit ''Repo'', str_lit ''Need Insurance'']"]
    d n
  show ?thesis by simp
qed

text \<open>
  C10. The import stores a lead for a row whose first and last name are both blank. The
  create-lead form is refused, with nothing written, when both name boxes are empty; but
  submitted with a first name of one space and an empty last name, where neither box holds
  a name once stripped, it is accepted and a lead with both names empty is written. The
  neighbouring ``Save Note'' handler refuses a body of one space.
\<close>

theorem save_lead_spaces_only_name:
  "py_strip (f_first_name form_spaces_name) = [] \<and>
   py_strip (f_last_name form_spaces_name) = [] \<and>
   save_lead [sample_lead] form_spaces_name =
     Inr [sample_lead,
          \<lparr>first_name = [], last_name = [], phone = Some [], phone2 = Some [],
           email = Some [], address1 = Some [], address2 = None, city = Some [],
           state = Some [], zipc = Some [], source = Some [], status = str_lit ''Warm'',
           assigned_to = Some [], tags = []\<rparr>] \<and>
   save_lead [sample_lead] form_no_name = Inl ''Add at least a first or last name.'' \<and>
   save_note (str_lit '' '') = Inl ''Note can't be empty.'' \<and>
   import_these_leads [sample_lead] [row_blank_names] =
     ([sample_lead, lead_of_row row_blank_names], 1) \<and>
   first_name (lead_of_row row_blank_names) = [] \<and>
   last_name (lead_of_row row_blank_names) = []"
proof -
  have boxes: "f_first_name form_spaces_name = str_lit '' ''" "f_last_name form_spaces_name = []"
    by (simp_all add: form_spaces_name_def)
  have nonempty: "str_lit '' '' \<noteq> []"
    by (simp add: str_lit_def)
  have accepted: "save_lead [sample_lead] form_spaces_name =
     Inr [sample_lead,
          \<lparr>first_name = [], last_name = [], phone = Some [], phone2 = Some [],
           email = Some [], address1 = Some [], address2 = None, city = Some [],
           state = Some [], zipc = Some [], source = Some [], status = str_lit ''Warm'',
           assigned_to = Some [], tags = []\<rparr>]"
    using nonempty
    by (simp add: save_lead_def py_strip_samples boxes) (simp add: form_spaces_name_def py_strip_samples)
  have refused: "save_lead [sample_lead] form_no_name = Inl ''Add at least a first or last name.''"
    by (simp add: save_lead_def form_no_name_def)
  have body: "save_note (str_lit '' '') = Inl ''Note can't be empty.''"
    by (simp add: save_note_def py_strip_samples)
  have names: "first_name (lead_of_row row_blank_names) = []"
    "last_name (lead_of_row row_blank_names) = []"
    by (simp_all add: lead_of_row_def Let_def row_blank_names_def row_get_def safe_str_def
        py_strip_samples str_lit_def)
  from boxes accepted refused body names show ?thesis
    by (simp add: import_these_leads_eq py_strip_samples)
qed

end
